theory Spec2Isabelle
  imports Complex_Main "HOL-Library.Sublist"
begin

section \<open>Python values and strings\<close>

text \<open>
  The writer of \<^verbatim>\<open>olca_jsonld_writer.py\<close> walks loosely typed process descriptions:
  nested dictionaries with string keys, lists, strings, numbers, booleans and None.
  A dictionary is an association list in insertion order (Python dictionaries keep it).
  A finite float is represented by the rational number it denotes; rounding to the
  nearest double is not modelled.
\<close>

datatype pyfloat = Finite rat | NaN | PosInf | NegInf

datatype pyval =
    PNone
  | PBool bool
  | PInt int
  | PFloat pyfloat
  | PStr string
  | PList "pyval list"
  | PDict "(string \<times> pyval) list"

datatype error = TypeError | ValueError | AttributeError | KeyError | IndexError
  | OverflowError | UnboundLocalError | OSError

text \<open>
  Characters are the code points 0 to 255. \<^verbatim>\<open>str.strip()\<close> removes the characters
  for which \<^verbatim>\<open>str.isspace()\<close> holds: in this range the code points 9 to 13, 28 to 32,
  133 and 160. \<^verbatim>\<open>str.lower()\<close> maps A-Z and the upper-case letters 192 to 222
  (except the multiplication sign 215) to the code point 32 above.
\<close>

definition is_space :: "char \<Rightarrow> bool" where
  "is_space c =
     (let n = (of_char c :: nat)
      in (9 \<le> n \<and> n \<le> 13) \<or> (28 \<le> n \<and> n \<le> 32) \<or> n = 133 \<or> n = 160)"

definition lstrip :: "string \<Rightarrow> string" where
  "lstrip s = dropWhile is_space s"

definition rstrip :: "string \<Rightarrow> string" where
  "rstrip s = rev (dropWhile is_space (rev s))"

definition strip :: "string \<Rightarrow> string" where
  "strip s = rstrip (lstrip s)"

definition lower_char :: "char \<Rightarrow> char" where
  "lower_char c =
     (let n = (of_char c :: nat)
      in if (65 \<le> n \<and> n \<le> 90) \<or> (192 \<le> n \<and> n \<le> 222 \<and> n \<noteq> 215)
         then char_of (n + 32) else c)"

definition lower :: "string \<Rightarrow> string" where
  "lower s = map lower_char s"

text \<open>\<^verbatim>\<open>sep.join(xs)\<close>\<close>

fun join :: "string \<Rightarrow> string list \<Rightarrow> string" where
  "join sep [] = []"
| "join sep [x] = x"
| "join sep (x # y # ys) = x @ sep @ join sep (y # ys)"

text \<open>\<^verbatim>\<open>needle in haystack\<close> for strings.\<close>

fun contains :: "string \<Rightarrow> string \<Rightarrow> bool" where
  "contains needle [] = (needle = [])"
| "contains needle (c # cs) = (prefix needle (c # cs) \<or> contains needle cs)"

text \<open>Decimal digits of a natural number and \<^verbatim>\<open>str(i)\<close> for an integer.\<close>

fun digits_of :: "nat \<Rightarrow> nat \<Rightarrow> string" where
  "digits_of 0 n = []"
| "digits_of (Suc fuel) n =
     (if n < 10 then [char_of (48 + n)]
      else digits_of fuel (n div 10) @ [char_of (48 + n mod 10)])"

definition str_nat :: "nat \<Rightarrow> string" where
  "str_nat n = digits_of (Suc n) n"

definition str_int :: "int \<Rightarrow> string" where
  "str_int i = (if i < 0 then CHR ''-'' # str_nat (nat (- i)) else str_nat (nat i))"

text \<open>Truth value of a Python value, as \<^verbatim>\<open>if v:\<close> and \<^verbatim>\<open>not v\<close> test it.\<close>

fun truthy :: "pyval \<Rightarrow> bool" where
  "truthy PNone = False"
| "truthy (PBool b) = b"
| "truthy (PInt i) = (i \<noteq> 0)"
| "truthy (PFloat (Finite q)) = (q \<noteq> 0)"
| "truthy (PFloat _) = True"
| "truthy (PStr s) = (s \<noteq> [])"
| "truthy (PList xs) = (xs \<noteq> [])"
| "truthy (PDict kvs) = (kvs \<noteq> [])"

fun is_dict :: "pyval \<Rightarrow> bool" where
  "is_dict (PDict _) = True"
| "is_dict _ = False"

fun is_str :: "pyval \<Rightarrow> bool" where
  "is_str (PStr _) = True"
| "is_str _ = False"

section \<open>Dictionaries and \<^verbatim>\<open>_val\<close>\<close>

text \<open>
  A Python dictionary keeps its keys in insertion order. \<^verbatim>\<open>d[k] = v\<close> replaces the
  value in place when the key is present and appends the pair otherwise;
  \<^verbatim>\<open>d.update(e)\<close> does so for every pair of \<open>e\<close>, in the order of \<open>e\<close>.
\<close>

fun od_set :: "('k \<times> 'v) list \<Rightarrow> 'k \<Rightarrow> 'v \<Rightarrow> ('k \<times> 'v) list" where
  "od_set [] k v = [(k, v)]"
| "od_set ((k', v') # kvs) k v =
     (if k' = k then (k', v) # kvs else (k', v') # od_set kvs k v)"

fun od_update :: "('k \<times> 'v) list \<Rightarrow> ('k \<times> 'v) list \<Rightarrow> ('k \<times> 'v) list" where
  "od_update d [] = d"
| "od_update d ((k, v) # kvs) = od_update (od_set d k v) kvs"

text \<open>\<^verbatim>\<open>dict_d[k] = v\<close> on a value that is a dictionary.\<close>

fun dict_set :: "pyval \<Rightarrow> string \<Rightarrow> pyval \<Rightarrow> pyval" where
  "dict_set (PDict kvs) k v = PDict (od_set kvs k v)"
| "dict_set d k v = d"

text \<open>
  \<^verbatim>\<open>_val(dict_d, *path, **kvargs)\<close>: the value of the first key of \<open>path\<close> that the
  dictionary has; the default (when one is given) if that value is None, if no key is
  found or if \<open>dict_d\<close> is not a dictionary.
\<close>

fun first_key :: "(string \<times> pyval) list \<Rightarrow> string list \<Rightarrow> pyval" where
  "first_key kvs [] = PNone"
| "first_key kvs (p # ps) =
     (case map_of kvs p of Some v \<Rightarrow> v | None \<Rightarrow> first_key kvs ps)"

definition val :: "pyval \<Rightarrow> string list \<Rightarrow> pyval option \<Rightarrow> pyval" where
  "val dict_d path dflt =
     (let r_val = (case dict_d of PDict kvs \<Rightarrow> first_key kvs path | _ \<Rightarrow> PNone)
      in if r_val = PNone then (case dflt of Some d \<Rightarrow> d | None \<Rightarrow> PNone) else r_val)"

text \<open>
  Iterating a value with \<^verbatim>\<open>for e in v\<close>: the elements of a list, the characters of
  a string, the keys of a dictionary; anything else is not iterable.
\<close>

fun py_iter :: "pyval \<Rightarrow> error + pyval list" where
  "py_iter (PList xs) = Inr xs"
| "py_iter (PStr s) = Inr (map (\<lambda>c. PStr [c]) s)"
| "py_iter (PDict kvs) = Inr (map (\<lambda>kv. PStr (fst kv)) kvs)"
| "py_iter _ = Inl TypeError"

section \<open>Entities and the registry\<close>

text \<open>
  The classes of the olca-schema package that the writer fills in, with the attributes
  it sets. An attribute holds the value the description gave, whatever its type, so the
  attributes are Python values; PNone is an attribute left at None.
\<close>

datatype root_type = KActor | KCurrency | KDQSystem | KEPD | KFlow | KFlowProperty
  | KImpactCategory | KImpactMethod | KLocation | KParameter | KProcess | KProductSystem
  | KProject | KResult | KSocialIndicator | KSource | KUnitGroup

definition root_keys :: "root_type list" where
  "root_keys = [KActor, KCurrency, KDQSystem, KEPD, KFlow, KFlowProperty, KImpactCategory,
     KImpactMethod, KLocation, KParameter, KProcess, KProductSystem, KProject, KResult,
     KSocialIndicator, KSource, KUnitGroup]"

fun key_name :: "root_type \<Rightarrow> string" where
  "key_name KActor = ''Actor''"
| "key_name KCurrency = ''Currency''"
| "key_name KDQSystem = ''DQSystem''"
| "key_name KEPD = ''EPD''"
| "key_name KFlow = ''Flow''"
| "key_name KFlowProperty = ''FlowProperty''"
| "key_name KImpactCategory = ''ImpactCategory''"
| "key_name KImpactMethod = ''ImpactMethod''"
| "key_name KLocation = ''Location''"
| "key_name KParameter = ''Parameter''"
| "key_name KProcess = ''Process''"
| "key_name KProductSystem = ''ProductSystem''"
| "key_name KProject = ''Project''"
| "key_name KResult = ''Result''"
| "key_name KSocialIndicator = ''SocialIndicator''"
| "key_name KSource = ''Source''"
| "key_name KUnitGroup = ''UnitGroup''"

text \<open>A reference to a root entity: its type, identifier, name and category.\<close>

record Ref =
  ref_type :: string
  ref_id :: pyval
  ref_name :: pyval
  ref_category :: pyval

datatype FlowType = ELEMENTARY_FLOW | PRODUCT_FLOW | WASTE_FLOW

record Uncertainty =
  u_distribution_type :: string
  u_geom_mean :: pyval
  u_geom_sd :: pyval

record Exchange =
  ex_is_quantitative_reference :: pyval
  ex_is_input :: pyval
  ex_is_avoided_product :: pyval
  ex_amount :: pyval
  ex_dq_entry :: pyval
  ex_description :: pyval
  ex_unit :: "Ref option"
  ex_flow_property :: "Ref option"
  ex_flow :: "Ref option"
  ex_uncertainty :: "Uncertainty option"
  ex_default_provider :: "Ref option"
  ex_internal_id :: "nat option"

record ProcessDocumentation =
  pd_copied :: "(string \<times> pyval) list"
  pd_valid_from :: pyval
  pd_valid_until :: pyval
  pd_reviewer :: "Ref option"
  pd_data_documentor :: "Ref option"
  pd_data_generator :: "Ref option"
  pd_data_set_owner :: "Ref option"
  pd_publication :: "Ref option"
  pd_sources :: "Ref list option"
  pd_creation_date :: string

record Process =
  p_id :: pyval
  p_name :: pyval
  p_category :: pyval
  p_version :: pyval
  p_description :: pyval
  p_process_type :: string
  p_location :: "Ref option"
  p_process_documentation :: ProcessDocumentation
  p_dq_entry :: pyval
  p_dq_system :: "Ref option"
  p_exchange_dq_system :: "Ref option"
  p_exchanges :: "Exchange list"

record Flow =
  f_id :: pyval
  f_name :: pyval
  f_category :: pyval
  f_flow_type :: "FlowType option"
  f_flow_property :: "Ref option"

record Location =
  l_id :: pyval
  l_code :: pyval
  l_name :: pyval
  l_latitude :: pyval
  l_longitude :: pyval
  l_description :: pyval

record Actor =
  a_id :: pyval
  a_name :: pyval

record Source =
  src_id :: pyval
  src_category :: pyval
  src_name :: pyval
  src_url :: pyval
  src_version :: pyval
  src_text_reference :: pyval
  src_year :: int

record DQSystem =
  dqs_id :: pyval
  dqs_name :: pyval
  dqs_description :: string

text \<open>An entity of a class the writer only reads and stores (a flow property, a unit group).\<close>

record RootEntity =
  re_id :: pyval
  re_name :: pyval
  re_category :: pyval

datatype entity =
    EProcess Process
  | EFlow Flow
  | ELocation Location
  | EActor Actor
  | ESource Source
  | EDQSystem DQSystem
  | EOther root_type RootEntity

fun entity_type :: "entity \<Rightarrow> root_type" where
  "entity_type (EProcess _) = KProcess"
| "entity_type (EFlow _) = KFlow"
| "entity_type (ELocation _) = KLocation"
| "entity_type (EActor _) = KActor"
| "entity_type (ESource _) = KSource"
| "entity_type (EDQSystem _) = KDQSystem"
| "entity_type (EOther k _) = k"

fun entity_id :: "entity \<Rightarrow> pyval" where
  "entity_id (EProcess p) = p_id p"
| "entity_id (EFlow f) = f_id f"
| "entity_id (ELocation l) = l_id l"
| "entity_id (EActor a) = a_id a"
| "entity_id (ESource x) = src_id x"
| "entity_id (EDQSystem q) = dqs_id q"
| "entity_id (EOther k r) = re_id r"

fun entity_name :: "entity \<Rightarrow> pyval" where
  "entity_name (EProcess p) = p_name p"
| "entity_name (EFlow f) = f_name f"
| "entity_name (ELocation l) = l_name l"
| "entity_name (EActor a) = a_name a"
| "entity_name (ESource x) = src_name x"
| "entity_name (EDQSystem q) = dqs_name q"
| "entity_name (EOther k r) = re_name r"

fun entity_category :: "entity \<Rightarrow> pyval" where
  "entity_category (EProcess p) = p_category p"
| "entity_category (EFlow f) = f_category f"
| "entity_category (ESource x) = src_category x"
| "entity_category (EOther k r) = re_category r"
| "entity_category _ = PNone"

text \<open>\<^verbatim>\<open>entity.to_ref()\<close> of the olca-schema package.\<close>

definition to_ref :: "entity \<Rightarrow> Ref" where
  "to_ref e = \<lparr>ref_type = key_name (entity_type e), ref_id = entity_id e,
               ref_name = entity_name e, ref_category = entity_category e\<rparr>"

text \<open>
  The root-entity dictionary: for every root type the list \<^verbatim>\<open>'ids'\<close> and the list
  \<^verbatim>\<open>'objs'\<close>. The two lists are separate lists, as in the source: nothing keeps them
  of one length. The slots hold root entities; the branch of the writer that repairs a
  stray Ref object found in a slot is outside the model. An identifier is found in a
  list of identifiers when it equals one of them as a value; that Python also takes 1,
  1.0 and True for equal is not modelled (the identifiers the builder meets are strings
  or None).
\<close>

record slot =
  ids :: "pyval list"
  objs :: "entity list"

type_synonym registry = "root_type \<Rightarrow> slot"

definition root_entity_dict :: registry where
  "root_entity_dict = (\<lambda>k. \<lparr>ids = [], objs = []\<rparr>)"

text \<open>\<^verbatim>\<open>xs.index(x)\<close> for an element of the list.\<close>

definition index_of :: "'a list \<Rightarrow> 'a \<Rightarrow> nat" where
  "index_of xs x = length (takeWhile (\<lambda>y. y \<noteq> x) xs)"

text \<open>\<^verbatim>\<open>idx = d['ids'].index(uid); obj = d['objs'][idx]\<close>, for an identifier in the list.\<close>

definition stored :: "slot \<Rightarrow> pyval \<Rightarrow> error + entity" where
  "stored sl u =
     (let idx = index_of (ids sl) u
      in if idx < length (objs sl) then Inr (objs sl ! idx) else Inl IndexError)"

text \<open>\<^verbatim>\<open>d[k]['ids'].append(uid); d[k]['objs'].append(obj)\<close>\<close>

definition append_entity :: "registry \<Rightarrow> root_type \<Rightarrow> pyval \<Rightarrow> entity \<Rightarrow> registry" where
  "append_entity dict_s k u obj =
     dict_s(k := \<lparr>ids = ids (dict_s k) @ [u], objs = objs (dict_s k) @ [obj]\<rparr>)"

section \<open>The environment\<close>

text \<open>
  What the module takes from outside the repository: the standard library's
  \<^verbatim>\<open>uuid.uuid3(uuid.NAMESPACE_OID, path)\<close> (an MD5-based hash, rendered as a string),
  \<^verbatim>\<open>str()\<close> of floats, lists and dictionaries, the unit catalogue of the olca-schema
  package (\<^verbatim>\<open>olca_schema.units.unit_ref\<close> and \<^verbatim>\<open>property_ref\<close>), the clock, the
  date parser (\<^verbatim>\<open>strptime\<close> with the format month/day/year, rendered in ISO format),
  the package version, the unit groups and flow properties of the Federal Elementary Flow
  List that \<^verbatim>\<open>_read_fedefl\<close> downloads or reads from its cache, and \<^verbatim>\<open>to_dict()\<close>
  of the olca-schema classes. They are parameters of the model: the general theorems
  below hold for all of them, and the examples fix one environment.
\<close>

record env =
  uuid3 :: "string \<Rightarrow> string"
  repr_other :: "pyval \<Rightarrow> string"
  unit_ref :: "pyval \<Rightarrow> Ref option"
  property_ref :: "pyval \<Rightarrow> Ref option"
  current_time :: string
  current_year :: int
  strptime_iso :: "string \<Rightarrow> string option"
  VERSION :: string
  fedefl_unit_groups :: "RootEntity list"
  fedefl_flow_properties :: "RootEntity list"
  to_dict :: "entity \<Rightarrow> (string \<times> pyval) list"

text \<open>\<^verbatim>\<open>str(arg)\<close>\<close>

definition py_str :: "env \<Rightarrow> pyval \<Rightarrow> string" where
  "py_str E v =
     (case v of
        PStr s \<Rightarrow> s
      | PNone \<Rightarrow> ''None''
      | PBool b \<Rightarrow> (if b then ''True'' else ''False'')
      | PInt i \<Rightarrow> str_int i
      | _ \<Rightarrow> repr_other E v)"

section \<open>Identifiers\<close>

text \<open>
  \<^verbatim>\<open>_uid(*args)\<close>: the arguments are turned into strings, stripped, joined with a
  slash, lower-cased as a whole and hashed.
\<close>

definition uid :: "env \<Rightarrow> pyval list \<Rightarrow> string" where
  "uid E args = uuid3 E (lower (join ''/'' (map (\<lambda>arg. strip (py_str E arg)) args)))"

text \<open>\<^verbatim>\<open>str(o.ModelType.X)\<close> for the members of the olca-schema enumeration.\<close>

definition ModelType_PROCESS :: pyval where "ModelType_PROCESS = PStr ''ModelType.PROCESS''"
definition ModelType_FLOW :: pyval where "ModelType_FLOW = PStr ''ModelType.FLOW''"
definition ModelType_LOCATION :: pyval where "ModelType_LOCATION = PStr ''ModelType.LOCATION''"
definition ModelType_ACTOR :: pyval where "ModelType_ACTOR = PStr ''ModelType.ACTOR''"
definition ModelType_SOURCE :: pyval where "ModelType_SOURCE = PStr ''ModelType.SOURCE''"
definition ModelType_DQ_SYSTEM :: pyval where "ModelType_DQ_SYSTEM = PStr ''ModelType.DQ_SYSTEM''"

text \<open>
  \<^verbatim>\<open>_uid_is_valid(uuid_str, version)\<close> is
  \<^verbatim>\<open>str(uuid.UUID(uuid_str, version=version)) == uuid_str\<close>, False when the
  constructor raises (a value that is not a string, a string that is not 32 hexadecimal
  digits once braces, hyphens and a urn prefix are removed). The constructor overwrites
  the version and variant bits and \<^verbatim>\<open>str\<close> prints the canonical form, so the test
  holds exactly for the canonical strings: 36 characters, hyphens at positions 8, 13, 18
  and 23, lower-case hexadecimal digits elsewhere, the version digit at position 14 and
  one of 8, 9, a, b at position 19.
\<close>

definition is_lower_hex :: "char \<Rightarrow> bool" where
  "is_lower_hex c =
     (let n = (of_char c :: nat) in (48 \<le> n \<and> n \<le> 57) \<or> (97 \<le> n \<and> n \<le> 102))"

definition canonical_char :: "nat \<Rightarrow> nat \<times> char \<Rightarrow> bool" where
  "canonical_char version ic =
     (let i = fst ic; c = snd ic
      in if i = 8 \<or> i = 13 \<or> i = 18 \<or> i = 23 then c = CHR ''-''
         else if i = 14 then (of_char c :: nat) = 48 + version
         else if i = 19 then c = CHR ''8'' \<or> c = CHR ''9'' \<or> c = CHR ''a'' \<or> c = CHR ''b''
         else is_lower_hex c)"

definition uid_is_valid :: "pyval \<Rightarrow> nat \<Rightarrow> bool" where
  "uid_is_valid uuid_str version =
     (case uuid_str of
        PStr s \<Rightarrow> 1 \<le> version \<and> version \<le> 5 \<and> length s = 36
                  \<and> list_all (canonical_char version) (zip [0..<36] s)
      | _ \<Rightarrow> False)"

section \<open>Numbers read from strings\<close>

text \<open>
  \<^verbatim>\<open>float(s)\<close> and \<^verbatim>\<open>int(s)\<close> of the standard library, for a string: surrounding
  white space is ignored, a sign may come first, digits may be grouped by single
  underscores, \<^verbatim>\<open>inf\<close>, \<^verbatim>\<open>infinity\<close> and \<^verbatim>\<open>nan\<close> are read in any case.
  None stands for the ValueError of a string that is not a number.
\<close>

definition is_digit :: "char \<Rightarrow> bool" where
  "is_digit c = (let n = (of_char c :: nat) in 48 \<le> n \<and> n \<le> 57)"

definition digit_val :: "char \<Rightarrow> nat" where
  "digit_val c = of_char c - 48"

fun take_digits :: "string \<Rightarrow> nat list \<Rightarrow> nat list \<times> string" where
  "take_digits [] acc = (acc, [])"
| "take_digits (c # cs) acc =
     (if is_digit c then take_digits cs (acc @ [digit_val c])
      else if c = CHR ''_'' \<and> acc \<noteq> [] \<and> (case cs of [] \<Rightarrow> False | d # _ \<Rightarrow> is_digit d)
      then take_digits cs acc
      else (acc, c # cs))"

definition digitpart :: "string \<Rightarrow> (nat list \<times> string) option" where
  "digitpart s = (case take_digits s [] of ([], _) \<Rightarrow> None | (d # ds, r) \<Rightarrow> Some (d # ds, r))"

definition nat_of_digits :: "nat list \<Rightarrow> nat" where
  "nat_of_digits ds = foldl (\<lambda>a d. 10 * a + d) 0 ds"

definition parse_sign :: "string \<Rightarrow> bool \<times> string" where
  "parse_sign s =
     (case s of
        [] \<Rightarrow> (False, [])
      | c # cs \<Rightarrow> if c = CHR ''-'' then (True, cs)
                  else if c = CHR ''+'' then (False, cs) else (False, s))"

definition parse_number :: "string \<Rightarrow> ((nat list \<times> nat list) \<times> string) option" where
  "parse_number s =
     (case digitpart s of
        Some (ip, r) \<Rightarrow>
          (case r of
             [] \<Rightarrow> Some ((ip, []), [])
           | c # cs \<Rightarrow>
               if c = CHR ''.''
               then (case digitpart cs of
                       Some (fp, r') \<Rightarrow> Some ((ip, fp), r')
                     | None \<Rightarrow> Some ((ip, []), cs))
               else Some ((ip, []), r))
      | None \<Rightarrow>
          (case s of
             [] \<Rightarrow> None
           | c # cs \<Rightarrow>
               if c = CHR ''.''
               then (case digitpart cs of
                       Some (fp, r') \<Rightarrow> Some (([], fp), r')
                     | None \<Rightarrow> None)
               else None))"

definition parse_exponent :: "string \<Rightarrow> (int \<times> string) option" where
  "parse_exponent s =
     (case s of
        [] \<Rightarrow> Some (0, [])
      | c # cs \<Rightarrow>
          if c = CHR ''e'' \<or> c = CHR ''E''
          then (case digitpart (snd (parse_sign cs)) of
                  None \<Rightarrow> None
                | Some (ds, r) \<Rightarrow>
                    Some (if fst (parse_sign cs) then - int (nat_of_digits ds)
                          else int (nat_of_digits ds), r))
          else Some (0, c # cs))"

definition scale10 :: "rat \<Rightarrow> int \<Rightarrow> rat" where
  "scale10 q e = (if 0 \<le> e then q * 10 ^ nat e else q / 10 ^ nat (- e))"

definition py_float :: "string \<Rightarrow> pyfloat option" where
  "py_float s =
     (let t = strip s; neg = fst (parse_sign t); r = snd (parse_sign t); l = lower r
      in if l = ''inf'' \<or> l = ''infinity'' then Some (if neg then NegInf else PosInf)
         else if l = ''nan'' then Some NaN
         else (case parse_number r of
                 None \<Rightarrow> None
               | Some (ipfp, r1) \<Rightarrow>
                   (case parse_exponent r1 of
                      None \<Rightarrow> None
                    | Some (e, r2) \<Rightarrow>
                        if r2 \<noteq> [] then None
                        else (let m = of_nat (nat_of_digits (fst ipfp))
                                     + of_nat (nat_of_digits (snd ipfp)) / 10 ^ length (snd ipfp);
                                  q = scale10 m e
                              in Some (Finite (if neg then - q else q))))))"

text \<open>\<^verbatim>\<open>round(x)\<close> of a float: to the nearest integer, a tie to the even one.\<close>

definition py_round :: "pyfloat \<Rightarrow> error + int" where
  "py_round x =
     (case x of
        Finite q \<Rightarrow>
          (let f = \<lfloor>q\<rfloor>; d = q - of_int f
           in Inr (if d < 1 / 2 then f else if 1 / 2 < d then f + 1
                   else if even f then f else f + 1))
      | NaN \<Rightarrow> Inl ValueError
      | _ \<Rightarrow> Inl OverflowError)"

text \<open>\<^verbatim>\<open>int(v)\<close>; None stands for any exception it raises.\<close>

definition py_int :: "pyval \<Rightarrow> int option" where
  "py_int v =
     (case v of
        PInt i \<Rightarrow> Some i
      | PBool b \<Rightarrow> Some (if b then 1 else 0)
      | PFloat (Finite q) \<Rightarrow> Some (if 0 \<le> q then \<lfloor>q\<rfloor> else - \<lfloor>- q\<rfloor>)
      | PStr s \<Rightarrow>
          (let t = strip s
           in case digitpart (snd (parse_sign t)) of
                Some (ds, []) \<Rightarrow>
                  Some (if fst (parse_sign t) then - int (nat_of_digits ds)
                        else int (nat_of_digits ds))
              | _ \<Rightarrow> None)
      | _ \<Rightarrow> None)"

section \<open>Leaves of the builder\<close>

text \<open>Running a fallible step over a list, stopping at the first exception.\<close>

fun map_err :: "('a \<Rightarrow> error + 'b) \<Rightarrow> 'a list \<Rightarrow> error + 'b list" where
  "map_err f [] = Inr []"
| "map_err f (x # xs) =
     (case f x of
        Inl e \<Rightarrow> Inl e
      | Inr y \<Rightarrow> (case map_err f xs of Inl e \<Rightarrow> Inl e | Inr ys \<Rightarrow> Inr (y # ys)))"

text \<open>\<^verbatim>\<open>s.split(sep)\<close> for a separator of one character.\<close>

fun split :: "char \<Rightarrow> string \<Rightarrow> string list" where
  "split sep [] = [[]]"
| "split sep (c # cs) =
     (if c = sep then [] # split sep cs
      else (case split sep cs of [] \<Rightarrow> [[c]] | x # xs \<Rightarrow> (c # x) # xs))"

text \<open>
  \<^verbatim>\<open>_format_dq_entry(entry)\<close>: a data-quality vector such as \<^verbatim>\<open>(1;2.0;n.a.)\<close> with
  its numbers rounded to integers. \<^verbatim>\<open>float\<close> and \<^verbatim>\<open>round\<close> are not guarded: an
  entry that is not a number raises.
\<close>

definition format_dq_num :: "string \<Rightarrow> error + string" where
  "format_dq_num n =
     (if n = ''n.a.'' \<or> n = ''nan'' then Inr n
      else (case py_float n of
              None \<Rightarrow> Inl ValueError
            | Some x \<Rightarrow> (case py_round x of Inl e \<Rightarrow> Inl e | Inr i \<Rightarrow> Inr (str_int i))))"

definition format_dq_entry :: "pyval \<Rightarrow> error + pyval" where
  "format_dq_entry entry =
     (case entry of
        PStr s \<Rightarrow>
          (let e = strip s
           in if length e < 2 then Inr PNone
              else (let e' = dropWhile (\<lambda>c. c = CHR ''('')
                               (rev (dropWhile (\<lambda>c. c = CHR '')'') (rev e)))
                    in case map_err format_dq_num (split CHR '';'' e') of
                         Inl err \<Rightarrow> Inl err
                       | Inr nums \<Rightarrow> Inr (PStr (''('' @ join '';'' nums @ '')''))))
      | _ \<Rightarrow> Inr PNone)"

text \<open>\<^verbatim>\<open>_format_date(entry)\<close>: every exception of the parser is caught.\<close>

definition format_date :: "env \<Rightarrow> pyval \<Rightarrow> pyval" where
  "format_date E entry =
     (case entry of
        PStr s \<Rightarrow> (case strptime_iso E s of Some d \<Rightarrow> PStr d | None \<Rightarrow> PNone)
      | _ \<Rightarrow> PNone)"

text \<open>\<^verbatim>\<open>_check_source_year(s_year)\<close>\<close>

definition check_source_year :: "env \<Rightarrow> pyval \<Rightarrow> int" where
  "check_source_year E s_year =
     (case py_int s_year of
        None \<Rightarrow> current_year E
      | Some r_year \<Rightarrow>
          if r_year < 0 \<or> r_year > current_year E + 1 then current_year E else r_year)"

text \<open>
  \<^verbatim>\<open>_isnum(n)\<close>: a float or an integer (a boolean is an integer) that is not NaN.
  \<^verbatim>\<open>math.isnan\<close> converts an integer to a float first and raises OverflowError for
  one that no float can hold.
\<close>

definition isnum :: "pyval \<Rightarrow> error + bool" where
  "isnum n =
     (case n of
        PFloat x \<Rightarrow> Inr (x \<noteq> NaN)
      | PInt i \<Rightarrow> if \<bar>i\<bar> < 2 ^ 1024 - 2 ^ 970 then Inr True else Inl OverflowError
      | PBool b \<Rightarrow> Inr True
      | _ \<Rightarrow> Inr False)"

text \<open>\<^verbatim>\<open>if isinstance(g, str): g = float(g)\<close>\<close>

definition str_to_float :: "pyval \<Rightarrow> error + pyval" where
  "str_to_float g =
     (case g of
        PStr s \<Rightarrow> (case py_float s of None \<Rightarrow> Inl ValueError | Some x \<Rightarrow> Inr (PFloat x))
      | _ \<Rightarrow> Inr g)"

text \<open>\<^verbatim>\<open>_uncertainty(dict_d)\<close>\<close>

definition uncertainty :: "pyval \<Rightarrow> error + Uncertainty option" where
  "uncertainty dict_d =
     (if \<not> is_dict dict_d then Inr None
      else if val dict_d [''distributionType''] None \<noteq> PStr ''Logarithmic Normal Distribution''
      then Inr None
      else (case str_to_float (val dict_d [''geomMean''] None) of
              Inl e \<Rightarrow> Inl e
            | Inr gmean \<Rightarrow>
                (case str_to_float (val dict_d [''geomSd''] None) of
                   Inl e \<Rightarrow> Inl e
                 | Inr gsd \<Rightarrow>
                     (case isnum gmean of
                        Inl e \<Rightarrow> Inl e
                      | Inr False \<Rightarrow> Inr None
                      | Inr True \<Rightarrow>
                          (case isnum gsd of
                             Inl e \<Rightarrow> Inl e
                           | Inr False \<Rightarrow> Inr None
                           | Inr True \<Rightarrow>
                               Inr (Some \<lparr>u_distribution_type = ''LOG_NORMAL_DISTRIBUTION'',
                                          u_geom_mean = gmean, u_geom_sd = gsd\<rparr>))))))"

text \<open>\<^verbatim>\<open>_flow_type(f_type)\<close>: the member of the enumeration with that value, or None.\<close>

definition flow_type :: "pyval \<Rightarrow> FlowType option" where
  "flow_type f_type =
     (if f_type = PStr ''ELEMENTARY_FLOW'' then Some ELEMENTARY_FLOW
      else if f_type = PStr ''PRODUCT_FLOW'' then Some PRODUCT_FLOW
      else if f_type = PStr ''WASTE_FLOW'' then Some WASTE_FLOW
      else None)"

text \<open>\<^verbatim>\<open>_unit(unit_name)\<close>\<close>

definition unit :: "env \<Rightarrow> pyval \<Rightarrow> Ref option" where
  "unit E unit_name =
     unit_ref E
       (case unit_name of
          PDict kvs \<Rightarrow> (case map_of kvs ''name'' of Some n \<Rightarrow> n | None \<Rightarrow> PStr [])
        | _ \<Rightarrow> unit_name)"

text \<open>\<^verbatim>\<open>_flow_property(unit_name, dict_s)\<close>\<close>

definition flow_property_of :: "env \<Rightarrow> pyval \<Rightarrow> registry \<Rightarrow> error + entity option" where
  "flow_property_of E unit_name dict_s =
     (case property_ref E unit_name of
        None \<Rightarrow> Inr None
      | Some p_ref \<Rightarrow>
          if ref_id p_ref \<in> set (ids (dict_s KFlowProperty))
          then (case stored (dict_s KFlowProperty) (ref_id p_ref) of
                  Inl e \<Rightarrow> Inl e
                | Inr r_obj \<Rightarrow> Inr (Some r_obj))
          else Inr None)"

definition flow_property :: "env \<Rightarrow> pyval \<Rightarrow> registry \<Rightarrow> error + entity option" where
  "flow_property E unit_name dict_s =
     (case unit_name of
        PDict kvs \<Rightarrow>
          (case map_of kvs ''name'' of
             None \<Rightarrow> Inr None
           | Some n \<Rightarrow> flow_property_of E n dict_s)
      | _ \<Rightarrow> flow_property_of E unit_name dict_s)"

text \<open>
  \<^verbatim>\<open>_find_dq(dict_d, dict_key)\<close> looks in the dictionary and, when it finds nothing
  there, in its \<^verbatim>\<open>processDocumentation\<close>, and so on down; it ends because the value
  under a key is smaller than the dictionary that holds it.
\<close>

lemma map_of_size: "map_of kvs k = Some v \<Longrightarrow> size v < size (PDict kvs)"
  by (induction kvs) (auto split: if_splits)

lemma first_key_size:
  "first_key kvs path \<noteq> PNone \<Longrightarrow> size (first_key kvs path) < size (PDict kvs)"
  by (induction path) (auto split: option.splits dest: map_of_size)

lemma val_size: "val d path None \<noteq> PNone \<Longrightarrow> size (val d path None) < size d"
  by (cases d) (auto simp: val_def Let_def dest: first_key_size[simplified])

lemma val_size_le: "size (val d path None) \<le> size d"
  by (cases "val d path None = PNone") (auto dest: val_size simp: less_imp_le)

function find_dq :: "pyval \<Rightarrow> string \<Rightarrow> pyval" where
  "find_dq dict_d dict_key =
     (let dq = val dict_d [dict_key] None
      in if is_dict dict_d \<and> \<not> truthy dq
         then find_dq (val dict_d [''processDocumentation''] None) dict_key
         else dq)"
  by pat_completeness auto
termination
  apply (relation "measure (\<lambda>(d, k). size d + (if is_dict d then 1 else 0))")
   apply simp
  subgoal for dict_d dict_key x
    using val_size[of dict_d "[''processDocumentation'']"]
    by (cases "val dict_d [''processDocumentation''] None = PNone") auto
  done

declare find_dq.simps [simp del]

text \<open>\<^verbatim>\<open>_dq_entry(dict_d)\<close>\<close>

definition dq_entry :: "pyval \<Rightarrow> error + pyval" where
  "dq_entry dict_d = format_dq_entry (find_dq dict_d ''dqEntry'')"

text \<open>\<^verbatim>\<open>_dq_system(dict_d, dict_s, dq_type)\<close>\<close>

definition dq_system :: "env \<Rightarrow> pyval \<Rightarrow> registry \<Rightarrow> string \<Rightarrow> error + (Ref option \<times> registry)" where
  "dq_system E dict_d dict_s dq_type =
     (if dq_type \<noteq> ''dqSystem'' \<and> dq_type \<noteq> ''exchangeDqSystem'' then Inl ValueError
      else (let dq_desc = (if dq_type = ''exchangeDqSystem''
                           then ''An exchange data quality system entry.''
                           else ''A process data quality system entry.'');
                dq = find_dq dict_d dq_type
            in if \<not> is_dict dq then Inr (None, dict_s)
               else (let dq_id = val dq [''@id''] None;
                         dq_name = val dq [''name''] (Some (PStr ''none''))
                     in if dq_id \<in> set (ids (dict_s KDQSystem))
                        then (case stored (dict_s KDQSystem) dq_id of
                                Inl e \<Rightarrow> Inl e
                              | Inr dq_obj \<Rightarrow> Inr (Some (to_ref dq_obj), dict_s))
                        else (let dq_id' = (if \<not> uid_is_valid dq_id 4
                                            then PStr (uid E [ModelType_DQ_SYSTEM, PStr dq_type, dq_name])
                                            else dq_id);
                                  dq_obj = EDQSystem \<lparr>dqs_id = dq_id', dqs_name = dq_name,
                                                       dqs_description = dq_desc\<rparr>
                              in Inr (Some (to_ref dq_obj),
                                      append_entity dict_s KDQSystem dq_id' dq_obj)))))"

text \<open>
  \<^verbatim>\<open>_flow(dict_d, flowprop, dict_s)\<close>. The function writes into the flow dictionary
  it is given (\<^verbatim>\<open>dict_d['flowType'] = "WASTE_FLOW"\<close>), so the model returns the
  dictionary as the caller finds it afterwards, next to the reference and the registry.
  \<^verbatim>\<open>o.new_flow(name, f_type, flowprop)\<close> of the olca-schema package is taken to store
  the flow type and the reference of the flow property it is given.
\<close>

definition flow :: "env \<Rightarrow> pyval \<Rightarrow> entity option \<Rightarrow> registry \<Rightarrow> error + (Ref option \<times> registry \<times> pyval)" where
  "flow E dict_d flowprop dict_s =
     (if \<not> is_dict dict_d then Inr (None, dict_s, dict_d)
      else (let u = val dict_d [''id'', ''@id''] None;
                name = val dict_d [''name''] None;
                category_path = val dict_d [''category''] (Some (PStr []))
            in case category_path of
                 PStr cp \<Rightarrow>
                   (let is_waste = contains ''waste'' (lower cp)
                    in if u \<in> set (ids (dict_s KFlow))
                       then (case stored (dict_s KFlow) u of
                               Inl e \<Rightarrow> Inl e
                             | Inr fl \<Rightarrow> Inr (Some (to_ref fl), dict_s, dict_d))
                       else (let u' = (if uid_is_valid u 3 \<or> uid_is_valid u 4 then u
                                       else PStr (uid E [ModelType_FLOW, category_path, name]));
                                 def_type = (if is_waste then ''WASTE_FLOW'' else ''ELEMENTARY_FLOW'');
                                 dict_d' = (if is_waste
                                            then dict_set dict_d ''flowType'' (PStr ''WASTE_FLOW'')
                                            else dict_d);
                                 f_type = flow_type (val dict_d' [''flowType''] (Some (PStr def_type)));
                                 fl = EFlow \<lparr>f_id = u', f_name = name, f_category = category_path,
                                              f_flow_type = f_type,
                                              f_flow_property = map_option to_ref flowprop\<rparr>
                             in Inr (Some (to_ref fl), append_entity dict_s KFlow u' fl, dict_d')))
               | _ \<Rightarrow> Inl AttributeError))"

text \<open>\<^verbatim>\<open>_location(dict_d, dict_s)\<close>\<close>

definition location :: "env \<Rightarrow> pyval \<Rightarrow> registry \<Rightarrow> error + (Ref option \<times> registry)" where
  "location E dict_d dict_s =
     (let code = (case dict_d of PStr s \<Rightarrow> dict_d | PDict kvs \<Rightarrow> val dict_d [''name''] None
                  | _ \<Rightarrow> PStr []);
          u = (case dict_d of PStr s \<Rightarrow> PNone | PDict kvs \<Rightarrow> val dict_d [''id'', ''@id''] None
               | _ \<Rightarrow> PStr [])
      in if \<not> is_str code then Inr (None, dict_s)
         else if code = PStr [] then Inr (None, dict_s)
         else (let u' = (if \<not> uid_is_valid u 3 then PStr (uid E [ModelType_LOCATION, code]) else u)
               in if u' \<in> set (ids (dict_s KLocation))
                  then (case stored (dict_s KLocation) u' of
                          Inl e \<Rightarrow> Inl e
                        | Inr loc \<Rightarrow> Inr (Some (to_ref loc), dict_s))
                  else (let loc = ELocation \<lparr>l_id = u', l_code = code, l_name = code,
                                   l_latitude = val dict_d [''latitude''] None,
                                   l_longitude = val dict_d [''longitude''] None,
                                   l_description = val dict_d [''description''] None\<rparr>
                        in Inr (Some (to_ref loc), append_entity dict_s KLocation u' loc))))"

text \<open>
  \<^verbatim>\<open>_actor(name, dict_s)\<close>. For a name that is not a non-empty string the function
  returns the bare value None, not a pair: the result is an optional pair.
\<close>

definition actor :: "env \<Rightarrow> pyval \<Rightarrow> registry \<Rightarrow> error + (Ref \<times> registry) option" where
  "actor E name dict_s =
     (if \<not> is_str name \<or> name = PStr [] then Inr None
      else (let u = PStr (uid E [ModelType_ACTOR, name])
            in if u \<in> set (ids (dict_s KActor))
               then (case stored (dict_s KActor) u of
                       Inl e \<Rightarrow> Inl e
                     | Inr a \<Rightarrow> Inr (Some (to_ref a, dict_s)))
               else (let a = EActor \<lparr>a_id = u, a_name = name\<rparr>
                     in Inr (Some (to_ref a, append_entity dict_s KActor u a)))))"

text \<open>
  \<^verbatim>\<open>x, dict_s = f(...)\<close>: unpacking a result into two names raises TypeError when
  the result is None.
\<close>

definition unpack :: "error + ('a \<times> 'b) option \<Rightarrow> error + ('a \<times> 'b)" where
  "unpack r = (case r of Inl e \<Rightarrow> Inl e | Inr None \<Rightarrow> Inl TypeError | Inr (Some p) \<Rightarrow> Inr p)"

text \<open>
  \<^verbatim>\<open>_source(src_data, dict_s)\<close>. Joining a category list that holds something other
  than strings raises inside the \<^verbatim>\<open>try\<close>; its \<^verbatim>\<open>finally\<close> clause then reads the
  unassigned \<^verbatim>\<open>category\<close>.
\<close>

fun the_str :: "pyval \<Rightarrow> string" where
  "the_str (PStr s) = s"
| "the_str _ = []"

definition source_category :: "(string \<times> pyval) list \<Rightarrow> error + pyval" where
  "source_category kvs =
     (case map_of kvs ''Category'' of
        None \<Rightarrow> Inr (PStr [])
      | Some (PList xs) \<Rightarrow>
          if list_all is_str xs then Inr (PStr (join ''/'' (map the_str xs)))
          else Inl UnboundLocalError
      | Some (PStr c) \<Rightarrow> Inr (PStr c)
      | Some _ \<Rightarrow> Inr (PStr []))"

definition source :: "env \<Rightarrow> pyval \<Rightarrow> registry \<Rightarrow> error + (Ref option \<times> registry)" where
  "source E src_data dict_s =
     (case src_data of
        PDict kvs \<Rightarrow>
          (case map_of kvs ''Name'' of
             None \<Rightarrow> Inr (None, dict_s)
           | Some nm \<Rightarrow>
               if nm = PStr [] then Inr (None, dict_s)
               else (case source_category kvs of
                       Inl e \<Rightarrow> Inl e
                     | Inr category \<Rightarrow>
                         (let u = PStr (uid E [ModelType_SOURCE, category, nm])
                          in if u \<in> set (ids (dict_s KSource))
                             then (case stored (dict_s KSource) u of
                                     Inl e \<Rightarrow> Inl e
                                   | Inr src \<Rightarrow> Inr (Some (to_ref src), dict_s))
                             else (let src = ESource \<lparr>src_id = u, src_category = category,
                                        src_name = nm,
                                        src_url = val src_data [''Url''] (Some PNone),
                                        src_version = val src_data [''Version''] (Some (PStr (VERSION E))),
                                        src_text_reference = val src_data [''TextReference''] (Some nm),
                                        src_year = check_source_year E (val src_data [''Year''] None)\<rparr>
                                   in Inr (Some (to_ref src), append_entity dict_s KSource u src)))))
      | _ \<Rightarrow> Inr (None, dict_s))"

text \<open>\<^verbatim>\<open>_source_list(s_data, dict_s)\<close>\<close>

fun source_loop :: "env \<Rightarrow> pyval list \<Rightarrow> registry \<Rightarrow> Ref list \<Rightarrow> error + (Ref list \<times> registry)" where
  "source_loop E [] dict_s r_list = Inr (r_list, dict_s)"
| "source_loop E (d # ds) dict_s r_list =
     (case source E d dict_s of
        Inl e \<Rightarrow> Inl e
      | Inr (s_ref, dict_s') \<Rightarrow>
          source_loop E ds dict_s' (case s_ref of None \<Rightarrow> r_list | Some r \<Rightarrow> r_list @ [r]))"

definition source_list :: "env \<Rightarrow> pyval \<Rightarrow> registry \<Rightarrow> error + (Ref list \<times> registry)" where
  "source_list E s_data dict_s =
     (case s_data of
        PList ds \<Rightarrow> source_loop E ds dict_s []
      | _ \<Rightarrow> Inr ([], dict_s))"

text \<open>
  \<^verbatim>\<open>_process_doc(dict_d, dict_s)\<close>. Each of the four actor references is unpacked
  from the result of \<^verbatim>\<open>_actor\<close>.
\<close>

definition copy_fields :: "string list" where
  "copy_fields = [''timeDescription'', ''technologyDescription'', ''dataCollectionDescription'',
     ''completenessDescription'', ''dataSelectionDescription'', ''reviewDetails'',
     ''dataTreatmentDescription'', ''inventoryMethodDescription'',
     ''modelingConstantsDescription'', ''samplingDescription'', ''restrictionsDescription'',
     ''copyright'', ''intendedApplication'', ''projectDescription'']"

definition process_doc :: "env \<Rightarrow> pyval \<Rightarrow> registry \<Rightarrow> error + (ProcessDocumentation \<times> registry)" where
  "process_doc E dict_d dict_s =
     (if \<not> is_dict dict_d
      then Inr (\<lparr>pd_copied = [], pd_valid_from = PNone, pd_valid_until = PNone,
                 pd_reviewer = None, pd_data_documentor = None, pd_data_generator = None,
                 pd_data_set_owner = None, pd_publication = None, pd_sources = None,
                 pd_creation_date = current_time E\<rparr>, dict_s)
      else
        (case unpack (actor E (val dict_d [''reviewer''] None) dict_s) of
           Inl e \<Rightarrow> Inl e
         | Inr (reviewer, s1) \<Rightarrow>
        (case unpack (actor E (val dict_d [''dataDocumentor''] None) s1) of
           Inl e \<Rightarrow> Inl e
         | Inr (data_documentor, s2) \<Rightarrow>
        (case unpack (actor E (val dict_d [''dataGenerator''] None) s2) of
           Inl e \<Rightarrow> Inl e
         | Inr (data_generator, s3) \<Rightarrow>
        (case unpack (actor E (val dict_d [''dataSetOwner''] None) s3) of
           Inl e \<Rightarrow> Inl e
         | Inr (data_set_owner, s4) \<Rightarrow>
        (case source E (val dict_d [''publication''] None) s4 of
           Inl e \<Rightarrow> Inl e
         | Inr (publication, s5) \<Rightarrow>
        (case source_list E (val dict_d [''sources''] (Some (PList []))) s5 of
           Inl e \<Rightarrow> Inl e
         | Inr (sources, s6) \<Rightarrow>
             Inr (\<lparr>pd_copied = map (\<lambda>field. (field, val dict_d [field] None)) copy_fields,
                   pd_valid_from = format_date E (val dict_d [''validFrom''] None),
                   pd_valid_until = format_date E (val dict_d [''validUntil''] None),
                   pd_reviewer = Some reviewer, pd_data_documentor = Some data_documentor,
                   pd_data_generator = Some data_generator,
                   pd_data_set_owner = Some data_set_owner, pd_publication = publication,
                   pd_sources = Some sources, pd_creation_date = current_time E\<rparr>, s6))))))))"

text \<open>\<^verbatim>\<open>_find_ref_exchange(p)\<close>: the last exchange of the process that is flagged.\<close>

fun find_ref_loop :: "Exchange list \<Rightarrow> Exchange option \<Rightarrow> Exchange option" where
  "find_ref_loop [] e_obj = e_obj"
| "find_ref_loop (e # es) e_obj =
     find_ref_loop es (if truthy (ex_is_quantitative_reference e) then Some e else e_obj)"

definition find_ref_exchange :: "entity \<Rightarrow> error + Exchange option" where
  "find_ref_exchange p =
     (case p of
        EProcess pr \<Rightarrow> Inr (find_ref_loop (p_exchanges pr) None)
      | _ \<Rightarrow> Inl AttributeError)"

text \<open>
  The part of \<^verbatim>\<open>_process\<close> that fills a new process in, up to its exchange list:
  location, documentation, data-quality entry and systems, in the order of the source.
\<close>

definition new_process :: "env \<Rightarrow> pyval \<Rightarrow> pyval \<Rightarrow> registry \<Rightarrow> error + (Process \<times> registry)" where
  "new_process E dict_d u dict_s =
     (case location E (val dict_d [''location''] None) dict_s of
        Inl e \<Rightarrow> Inl e
      | Inr (loc, s1) \<Rightarrow>
     (case process_doc E (val dict_d [''processDocumentation''] None) s1 of
        Inl e \<Rightarrow> Inl e
      | Inr (doc, s2) \<Rightarrow>
     (case dq_entry dict_d of
        Inl e \<Rightarrow> Inl e
      | Inr dqe \<Rightarrow>
     (case dq_system E dict_d s2 ''dqSystem'' of
        Inl e \<Rightarrow> Inl e
      | Inr (dqs, s3) \<Rightarrow>
     (case dq_system E dict_d s3 ''exchangeDqSystem'' of
        Inl e \<Rightarrow> Inl e
      | Inr (edqs, s4) \<Rightarrow>
          Inr (\<lparr>p_id = u, p_name = val dict_d [''name''] None,
                p_category = val dict_d [''category''] (Some (PStr [])),
                p_version = val dict_d [''version''] (Some (PStr (VERSION E))),
                p_description = val dict_d [''description''] None,
                p_process_type =
                  (if val dict_d [''processType''] (Some (PStr ''UNIT_PROCESS'')) \<noteq> PStr ''UNIT_PROCESS''
                   then ''LCI_RESULT'' else ''UNIT_PROCESS''),
                p_location = loc, p_process_documentation = doc, p_dq_entry = dqe,
                p_dq_system = dqs, p_exchange_dq_system = edqs, p_exchanges = []\<rparr>, s4))))))"

text \<open>
  The part of \<^verbatim>\<open>_exchange\<close> before the flow: \<^verbatim>\<open>o.Exchange.from_dict\<close> copies the
  values it is given, whatever their type.
\<close>

definition exchange_base :: "pyval \<Rightarrow> error + Exchange" where
  "exchange_base dict_d =
     (case format_dq_entry (val dict_d [''dqEntry''] None) of
        Inl e \<Rightarrow> Inl e
      | Inr dqe \<Rightarrow>
          Inr \<lparr>ex_is_quantitative_reference = val dict_d [''quantitativeReference''] (Some (PBool False)),
               ex_is_input = val dict_d [''input''] (Some (PBool False)),
               ex_is_avoided_product = val dict_d [''avoidedProduct''] (Some (PBool False)),
               ex_amount = val dict_d [''amount''] (Some (PFloat (Finite 0))),
               ex_dq_entry = dqe,
               ex_description = val dict_d [''comment''] None,
               ex_unit = None, ex_flow_property = None, ex_flow = None,
               ex_uncertainty = None, ex_default_provider = None, ex_internal_id = None\<rparr>)"

text \<open>The identifier \<^verbatim>\<open>_process\<close> gives a description: the one supplied, or a derived one.\<close>

definition process_uid :: "env \<Rightarrow> pyval \<Rightarrow> pyval" where
  "process_uid E dict_d =
     (let u = val dict_d [''@id''] None;
          name = val dict_d [''name''] None;
          category = val dict_d [''category''] (Some (PStr []));
          location_code = val dict_d [''location'', ''name''] (Some (PStr []))
      in if u = PNone then PStr (uid E [ModelType_PROCESS, category, location_code, name])
         else u)"

section \<open>The graph builder\<close>

text \<open>
  \<^verbatim>\<open>_process\<close>, \<^verbatim>\<open>_exchange_list\<close> and \<^verbatim>\<open>_exchange\<close> call each other: a process
  builds its exchanges, and an exchange resolves its provider, a process description
  nested in it. The recursion follows the nesting of the description and ends with it.
  Besides the results of the source, each function returns its description argument as
  the caller finds it afterwards, because \<^verbatim>\<open>_flow\<close> writes into the flow dictionaries
  nested in it. \<^verbatim>\<open>exchange_loop\<close> is the loop of \<^verbatim>\<open>_exchange_list\<close>, with the list
  built so far, the last sequence number, the reference exchange found so far and the
  entries already visited.
\<close>

definition iter_list :: "pyval \<Rightarrow> pyval list" where
  "iter_list v = (case py_iter v of Inl _ \<Rightarrow> [] | Inr xs \<Rightarrow> xs)"

lemma sum_size_le: "sum_list (map size xs) \<le> size_list size (xs :: pyval list)"
  by (induction xs) auto

lemma iter_list_size: "sum_list (map size (iter_list v)) \<le> size v"
proof (cases v)
  case (PList xs)
  then show ?thesis using sum_size_le[of xs] by (simp add: iter_list_def)
next
  case (PStr s)
  then show ?thesis by (simp add: iter_list_def comp_def)
next
  case (PDict kvs)
  then show ?thesis by (simp add: iter_list_def comp_def)
qed (simp_all add: iter_list_def)

lemma val_default_eq: "val d path None \<noteq> PNone \<Longrightarrow> val d path (Some x) = val d path None"
  by (auto simp: val_def Let_def)

lemma val_default_none: "val d path None = PNone \<Longrightarrow> val d path (Some x) = x"
  by (auto simp: val_def Let_def split: if_splits)

lemma exchanges_size:
  assumes "is_dict d"
  shows "sum_list (map size (iter_list (val d path (Some (PList []))))) < size d"
proof (cases "val d path None = PNone")
  case True
  from assms have "0 < size d" by (cases d) simp_all
  with True show ?thesis by (simp add: val_default_none iter_list_def)
next
  case False
  then have "size (val d path None) < size d" by (rule val_size)
  moreover have "sum_list (map size (iter_list (val d path None))) \<le> size (val d path None)"
    by (rule iter_list_size)
  ultimately show ?thesis using False by (simp add: val_default_eq)
qed

function process :: "env \<Rightarrow> pyval \<Rightarrow> registry \<Rightarrow> error + (entity option \<times> registry \<times> Exchange option \<times> pyval)"
  and exchange_list :: "env \<Rightarrow> pyval \<Rightarrow> registry \<Rightarrow> error + (Exchange list \<times> registry \<times> Exchange option \<times> pyval list)"
  and exchange_loop :: "env \<Rightarrow> pyval list \<Rightarrow> registry \<Rightarrow> Exchange list \<Rightarrow> nat \<Rightarrow> Exchange option \<Rightarrow> pyval list
      \<Rightarrow> error + (Exchange list \<times> registry \<times> Exchange option \<times> pyval list)"
  and exchange :: "env \<Rightarrow> pyval \<Rightarrow> registry \<Rightarrow> error + (Exchange option \<times> registry \<times> pyval)"
where
  "process E dict_d dict_s =
     (if \<not> is_dict dict_d then Inr (None, dict_s, None, dict_d)
      else if process_uid E dict_d \<in> set (ids (dict_s KProcess))
      then (case stored (dict_s KProcess) (process_uid E dict_d) of
              Inl e \<Rightarrow> Inl e
            | Inr p \<Rightarrow>
                (case find_ref_exchange p of
                   Inl e \<Rightarrow> Inl e
                 | Inr e_ref \<Rightarrow> Inr (Some p, dict_s, e_ref, dict_d)))
      else (case new_process E dict_d (process_uid E dict_d) dict_s of
              Inl e \<Rightarrow> Inl e
            | Inr (p, s1) \<Rightarrow>
                (case exchange_list E dict_d s1 of
                   Inl e \<Rightarrow> Inl e
                 | Inr (r_list, s2, e_ref, es') \<Rightarrow>
                     Inr (Some (EProcess (p\<lparr>p_exchanges := r_list\<rparr>)), s2, e_ref,
                          (case val dict_d [''exchanges''] None of
                             PList _ \<Rightarrow> dict_set dict_d ''exchanges'' (PList es')
                           | _ \<Rightarrow> dict_d)))))"
| "exchange_list E dict_d dict_s =
     (case py_iter (val dict_d [''exchanges''] (Some (PList []))) of
        Inl e \<Rightarrow> Inl e
      | Inr es \<Rightarrow> exchange_loop E es dict_s [] 0 None [])"
| "exchange_loop E [] dict_s r_list last_id q_ref visited = Inr (r_list, dict_s, q_ref, visited)"
| "exchange_loop E (e # es) dict_s r_list last_id q_ref visited =
     (case exchange E e dict_s of
        Inl err \<Rightarrow> Inl err
      | Inr (None, s1, e') \<Rightarrow> exchange_loop E es s1 r_list last_id q_ref (visited @ [e'])
      | Inr (Some ex_obj, s1, e') \<Rightarrow>
          exchange_loop E es s1
            (r_list @ [ex_obj\<lparr>ex_internal_id := Some (last_id + 1)\<rparr>]) (last_id + 1)
            (if truthy (ex_is_quantitative_reference ex_obj)
             then Some (ex_obj\<lparr>ex_internal_id := Some (last_id + 1)\<rparr>) else q_ref)
            (visited @ [e']))"
| "exchange E dict_d dict_s =
     (if dict_d = PNone then Inr (None, dict_s, dict_d)
      else (case exchange_base dict_d of
              Inl err \<Rightarrow> Inl err
            | Inr e \<Rightarrow>
        (case flow_property E (val dict_d [''unit''] (Some (PStr ''kg''))) dict_s of
              Inl err \<Rightarrow> Inl err
            | Inr f_prop \<Rightarrow>
        (case flow E (val dict_d [''flow''] None) f_prop dict_s of
              Inl err \<Rightarrow> Inl err
            | Inr (f_ref, s1, flow_d) \<Rightarrow>
        (case uncertainty (val dict_d [''uncertainty''] None) of
              Inl err \<Rightarrow> Inl err
            | Inr u \<Rightarrow>
        (case process E (val dict_d [''provider''] None) s1 of
              Inl err \<Rightarrow> Inl err
            | Inr (p_ref, s2, ignored, provider_d) \<Rightarrow>
                Inr (Some (e\<lparr>ex_unit := unit E (val dict_d [''unit''] (Some (PStr ''kg''))),
                             ex_flow_property := map_option to_ref f_prop,
                             ex_flow := f_ref, ex_uncertainty := u,
                             ex_default_provider := map_option to_ref p_ref\<rparr>),
                     s2,
                     (let d1 = (if is_dict (val dict_d [''flow''] None)
                                then dict_set dict_d ''flow'' flow_d else dict_d)
                      in if is_dict (val dict_d [''provider''] None)
                         then dict_set d1 ''provider'' provider_d else d1))))))))"
  by pat_completeness auto
termination
  apply (relation "measures [
     (\<lambda>x. case x of
        Inl (Inl (E, d, s)) \<Rightarrow> size d
      | Inl (Inr (E, d, s)) \<Rightarrow> sum_list (map size (iter_list (val d [''exchanges''] (Some (PList [])))))
      | Inr (Inl (E, es, s, r, l, q, dn)) \<Rightarrow> sum_list (map size es)
      | Inr (Inr (E, e, s)) \<Rightarrow> size e),
     (\<lambda>x. case x of
        Inl (Inl _) \<Rightarrow> 0
      | Inl (Inr _) \<Rightarrow> 3
      | Inr (Inl _) \<Rightarrow> 2
      | Inr (Inr _) \<Rightarrow> 1),
     (\<lambda>x. case x of
        Inr (Inl (E, es, s, r, l, q, dn)) \<Rightarrow> length es
      | _ \<Rightarrow> 0)]")
  apply (simp_all add: exchanges_size)
  subgoal by (simp add: iter_list_def)
  subgoal for es by (induction es) auto
  subgoal by auto
  subgoal by auto
  subgoal for E dict_d using val_size_le[of dict_d "[''provider'']"] by linarith
  done

declare process.simps [simp del] exchange_list.simps [simp del] exchange.simps [simp del]

section \<open>Merging two registries\<close>

text \<open>
  \<^verbatim>\<open>_make_entity_dict(e_dict, e_key)\<close>: the dictionary from the i-th identifier to the
  i-th object, for every index of the identifier list; an identifier with no object at
  its index (the IndexError of the source) is skipped.
\<close>

fun make_entity_loop :: "pyval list \<Rightarrow> entity list \<Rightarrow> (pyval \<times> entity) list \<Rightarrow> (pyval \<times> entity) list" where
  "make_entity_loop [] os r_dict = r_dict"
| "make_entity_loop (u # us) [] r_dict = make_entity_loop us [] r_dict"
| "make_entity_loop (u # us) (obj # os) r_dict = make_entity_loop us os (od_set r_dict u obj)"

definition make_entity_dict :: "registry \<Rightarrow> root_type \<Rightarrow> (pyval \<times> entity) list" where
  "make_entity_dict e_dict e_key =
     make_entity_loop (ids (e_dict e_key)) (objs (e_dict e_key)) []"

text \<open>
  \<^verbatim>\<open>_update_data(cur_data, new_data)\<close>: for every key, the dictionary of the current
  data updated with the dictionary of the new data, put back as two lists.
\<close>

definition update_key :: "registry \<Rightarrow> root_type \<Rightarrow> registry \<Rightarrow> registry" where
  "update_key cur_data k new_data =
     (let d_cur = od_update (make_entity_dict cur_data k) (make_entity_dict new_data k)
      in new_data(k := \<lparr>ids = map fst d_cur, objs = map snd d_cur\<rparr>))"

definition update_data :: "registry \<Rightarrow> registry \<Rightarrow> registry" where
  "update_data cur_data new_data = fold (update_key cur_data) root_keys new_data"

section \<open>The archive on disk\<close>

text \<open>
  An archive is the list of documents written to it, each under the folder of its class.
  The file system maps a path to the archive stored there. Writing can fail for reasons
  outside the program (a full disk): \<open>capacity\<close> is the number of documents the disk
  still accepts before a write raises OSError, None for a disk that never fails.
\<close>

type_synonym archive = "(root_type \<times> entity) list"

record filesystem =
  files :: "string \<Rightarrow> archive option"
  capacity :: "nat option"

text \<open>\<^verbatim>\<open>ZipReader.ids_of(spec)\<close> and \<^verbatim>\<open>ZipReader.read(spec, rid)\<close>\<close>

definition ids_of :: "archive \<Rightarrow> root_type \<Rightarrow> pyval list" where
  "ids_of a k = map (\<lambda>x. entity_id (snd x)) (filter (\<lambda>x. fst x = k) a)"

definition zip_read :: "archive \<Rightarrow> root_type \<Rightarrow> pyval \<Rightarrow> entity option" where
  "zip_read a k rid =
     map_option snd (find (\<lambda>x. fst x = k \<and> entity_id (snd x) = rid) a)"

text \<open>
  \<^verbatim>\<open>_read_jsonld(json_file, root_dict, id_only)\<close>: for every root type, the identifiers
  of the archive that the dictionary does not hold yet, with their objects.
\<close>

fun read_loop :: "archive \<Rightarrow> bool \<Rightarrow> root_type \<Rightarrow> pyval list \<Rightarrow> slot \<Rightarrow> slot" where
  "read_loop a id_only k [] sl = sl"
| "read_loop a id_only k (rid # rids) sl =
     read_loop a id_only k rids
       (if rid \<in> set (ids sl) then sl
        else if id_only then sl\<lparr>ids := ids sl @ [rid]\<rparr>
        else (case zip_read a k rid of
                None \<Rightarrow> sl
              | Some r_obj \<Rightarrow> \<lparr>ids = ids sl @ [rid], objs = objs sl @ [r_obj]\<rparr>))"

definition read_jsonld :: "filesystem \<Rightarrow> string \<Rightarrow> registry \<Rightarrow> bool \<Rightarrow> error + registry" where
  "read_jsonld fs json_file root_dict id_only =
     (case files fs json_file of
        None \<Rightarrow> Inl OSError
      | Some a \<Rightarrow>
          Inr (fold (\<lambda>k d. d(k := read_loop a id_only k (ids_of a k) (d k))) root_keys root_dict))"

text \<open>\<^verbatim>\<open>_add_unit_groups(spec_map)\<close>\<close>

definition add_unit_groups :: "env \<Rightarrow> registry \<Rightarrow> registry" where
  "add_unit_groups E spec_map =
     fold (\<lambda>p_obj d. append_entity d KFlowProperty (re_id p_obj) (EOther KFlowProperty p_obj))
       (fedefl_flow_properties E)
       (fold (\<lambda>u_obj d. append_entity d KUnitGroup (re_id u_obj) (EOther KUnitGroup u_obj))
          (fedefl_unit_groups E) spec_map)"

text \<open>\<^verbatim>\<open>_init_root_entities(json_file)\<close>\<close>

definition init_root_entities :: "env \<Rightarrow> filesystem \<Rightarrow> string \<Rightarrow> error + registry" where
  "init_root_entities E fs json_file =
     (if files fs json_file \<noteq> None then read_jsonld fs json_file root_entity_dict False
      else Inr (add_unit_groups E root_entity_dict))"

text \<open>
  The loop of \<^verbatim>\<open>_save_to_json\<close> over the objects of the merged dictionary:
  \<^verbatim>\<open>writer.write(k_obj)\<close> adds the document of the object to the archive, or raises
  when the disk accepts no more; the documents written before stay in the file.
\<close>

fun writer_loop :: "entity list \<Rightarrow> archive \<Rightarrow> nat option \<Rightarrow> (error + unit) \<times> archive \<times> nat option" where
  "writer_loop [] a cap = (Inr (), a, cap)"
| "writer_loop (k_obj # rest) a cap =
     (if cap = Some 0 then (Inl OSError, a, cap)
      else writer_loop rest (a @ [(entity_type k_obj, k_obj)]) (map_option (\<lambda>n. n - 1) cap))"

text \<open>
  \<^verbatim>\<open>_save_to_json(json_file, e_dict)\<close>, in the order of the source: read the archive at
  the path; when that succeeds, remove the file (\<^verbatim>\<open>os.remove\<close>); merge; open a new
  archive at the path (\<^verbatim>\<open>zipio.ZipWriter\<close>) and write the objects of every root type.
  The result is the exception, if any, and the file system as the call leaves it.
\<close>

definition save_to_json :: "string \<Rightarrow> registry \<Rightarrow> filesystem \<Rightarrow> (error + unit) \<times> filesystem" where
  "save_to_json json_file e_dict fs =
     (let r = read_jsonld fs json_file root_entity_dict False;
          c_data = (case r of Inl _ \<Rightarrow> root_entity_dict | Inr c \<Rightarrow> c);
          fs1 = (case r of Inl _ \<Rightarrow> fs | Inr _ \<Rightarrow> fs\<lparr>files := (files fs)(json_file := None)\<rparr>);
          e_dict' = update_data c_data e_dict;
          w = writer_loop (concat (map (\<lambda>k. objs (e_dict' k)) root_keys)) [] (capacity fs1)
      in (fst w, fs1\<lparr>files := (files fs1)(json_file \<mapsto> fst (snd w)), capacity := snd (snd w)\<rparr>))"

section \<open>\<^verbatim>\<open>write\<close>\<close>

text \<open>
  The annotation of a description after its process is built: the dictionary of the
  process, its identifier and, for a reference exchange, the name, identifier and
  category of its flow and the name of its unit. Reading an attribute of a flow or unit
  that is None raises inside the \<^verbatim>\<open>try\<close>, and the annotations not yet made are left out.
\<close>

definition annotate :: "env \<Rightarrow> pyval \<Rightarrow> entity \<Rightarrow> Exchange option \<Rightarrow> pyval" where
  "annotate E d p e =
     (let d1 = (case d of PDict kvs \<Rightarrow> PDict (od_update kvs (to_dict E p)) | _ \<Rightarrow> d);
          d2 = dict_set d1 ''uuid'' (entity_id p)
      in case e of
           None \<Rightarrow> d2
         | Some ex \<Rightarrow>
             (case ex_flow ex of
                None \<Rightarrow> d2
              | Some f \<Rightarrow>
                  (let d3 = dict_set (dict_set (dict_set d2 ''q_reference_name'' (ref_name f))
                                        ''q_reference_id'' (ref_id f))
                              ''q_reference_cat'' (ref_category f)
                   in case ex_unit ex of
                        None \<Rightarrow> d3
                      | Some u \<Rightarrow> dict_set d3 ''q_reference_unit'' (ref_name u))))"

text \<open>
  The loop of \<^verbatim>\<open>write\<close> over the descriptions: build the process, append its
  identifier and the process to the registry, annotate the description. A description
  that is not a dictionary gives no process, and reading the identifier of None raises.
\<close>

fun write_loop :: "env \<Rightarrow> (string \<times> pyval) list \<Rightarrow> registry \<Rightarrow> error + ((string \<times> pyval) list \<times> registry)" where
  "write_loop E [] spec_map = Inr ([], spec_map)"
| "write_loop E ((p_key, d_vals) # rest) spec_map =
     (case process E d_vals spec_map of
        Inl e \<Rightarrow> Inl e
      | Inr (None, s1, e, d') \<Rightarrow> Inl AttributeError
      | Inr (Some p, s1, e, d') \<Rightarrow>
          (case write_loop E rest (append_entity s1 KProcess (entity_id p) p) of
             Inl e \<Rightarrow> Inl e
           | Inr (rest', s2) \<Rightarrow> Inr ((p_key, annotate E d' p e) # rest', s2)))"

text \<open>\<^verbatim>\<open>write(processes, file_path, to_save)\<close>\<close>

definition write_olca :: "env \<Rightarrow> (string \<times> pyval) list \<Rightarrow> string \<Rightarrow> bool \<Rightarrow> filesystem
    \<Rightarrow> (error + (string \<times> pyval) list) \<times> filesystem" where
  "write_olca E processes file_path to_save fs =
     (case init_root_entities E fs file_path of
        Inl e \<Rightarrow> (Inl e, fs)
      | Inr spec_map \<Rightarrow>
          (case write_loop E processes spec_map of
             Inl e \<Rightarrow> (Inl e, fs)
           | Inr (processes', spec_map') \<Rightarrow>
               if to_save
               then (let r = save_to_json file_path spec_map' fs
                     in (case fst r of Inl e \<Rightarrow> Inl e | Inr _ \<Rightarrow> Inr processes', snd r))
               else (Inr processes', fs)))"

section \<open>An environment for the examples\<close>

text \<open>
  The examples below are evaluated in this environment. Its hash is a stand-in that
  shows the path it was given, so that an example displays the path an identifier is
  derived from. The unit catalogue knows the unit kg, of the flow property Mass.
\<close>

definition sample_env :: env where
  "sample_env = \<lparr>uuid3 = (\<lambda>path. ''uuid3('' @ path @ '')''), repr_other = (\<lambda>v. ''<object>''),
     unit_ref = (\<lambda>n. if n = PStr ''kg'' then Some \<lparr>ref_type = ''Unit'', ref_id = PStr ''20aadc24-a391-41cf-b340-3e4529f44bde'', ref_name = PStr ''kg'', ref_category = PNone\<rparr> else None),
     property_ref = (\<lambda>n. if n = PStr ''kg'' then Some \<lparr>ref_type = ''FlowProperty'', ref_id = PStr ''93a60a56-a3c8-11da-a746-0800200b9a66'', ref_name = PStr ''Mass'', ref_category = PNone\<rparr> else None),
     current_time = ''2023-12-07T00:00:00+00:00'', current_year = 2023,
     strptime_iso = (\<lambda>s. None), VERSION = ''1.0.0'',
     fedefl_unit_groups = [], fedefl_flow_properties = [],
     to_dict = (\<lambda>e. [(''@id'', entity_id e), (''name'', entity_name e)])\<rparr>"

text \<open>An empty disk that never fails.\<close>

definition fs0 :: filesystem where
  "fs0 = \<lparr>files = (\<lambda>p. None), capacity = None\<rparr>"

text \<open>A description with three exchange entries: two flagged as reference, and None between them.\<close>

definition two_references :: pyval where
  "two_references = PDict [(''name'', PStr ''plant''), (''exchanges'', PList [
      PDict [(''quantitativeReference'', PBool True), (''amount'', PInt 1)],
      PNone,
      PDict [(''quantitativeReference'', PBool True), (''amount'', PInt 2)]])]"

text \<open>Unfolding the model on a concrete input.\<close>

lemma char_eq_char_of: "(c = char_of (n :: nat)) = (take_bit 8 n = of_char c)"
  using char_of_eq_iff[of n c] by auto

lemmas str_defs = strip_def lstrip_def rstrip_def is_space_def lower_def lower_char_def
  char_of_eq_iff char_eq_char_of is_digit_def digit_val_def

lemmas float_defs = py_float_def parse_sign_def parse_number_def parse_exponent_def
  digitpart_def nat_of_digits_def scale10_def

lemmas build_defs = Let_def val_def uid_def py_str_def ModelType_PROCESS_def ModelType_FLOW_def
  ModelType_LOCATION_def ModelType_ACTOR_def ModelType_SOURCE_def ModelType_DQ_SYSTEM_def
  sample_env_def root_entity_dict_def append_entity_def stored_def index_of_def to_ref_def
  process.simps exchange_list.simps exchange.simps process_uid_def new_process_def
  location_def process_doc_def actor_def unpack_def source_def source_list_def
  dq_entry_def dq_system_def find_dq.simps format_dq_entry_def flow_def flow_type_def
  unit_def flow_property_def flow_property_of_def exchange_base_def uncertainty_def
  find_ref_exchange_def uid_is_valid_def format_date_def iter_list_def






text \<open>A batch of two descriptions of one process.\<close>

definition same_process_twice :: "(string \<times> pyval) list" where
  "same_process_twice = [(''first'', PDict [(''name'', PStr ''Plant'')]),
                         (''second'', PDict [(''name'', PStr ''Plant'')])]"






section \<open>Identifier derivation\<close>

lemma lower_append: "lower (a @ b) = lower a @ lower b"
  by (simp add: lower_def)

lemma lower_slash: "lower (CHR ''/'' # s) = CHR ''/'' # lower s"
  by (simp add: lower_def lower_char_def)

lemma lower_join: "lower (join ''/'' xs) = join ''/'' (map lower xs)"
proof (induction "''/''" xs rule: join.induct)
  case 1
  show ?case by (simp add: lower_def)
next
  case (2 x)
  show ?case by simp
next
  case (3 x y ys)
  then show ?case by (simp add: lower_append lower_slash)
qed

text \<open>
  Claim C2. \<^verbatim>\<open>_uid\<close> is a function of its arguments, and two argument sequences
  whose corresponding segments are equal once their string forms are stripped of
  surrounding white space and lower-cased get the same identifier.
\<close>

theorem uid_deterministic:
  assumes "list_all2 (\<lambda>a b. lower (strip (py_str E a)) = lower (strip (py_str E b))) args args'"
  shows "uid E args = uid E args'"
proof -
  from assms have "map (\<lambda>a. lower (strip (py_str E a))) args = map (\<lambda>b. lower (strip (py_str E b))) args'"
    by (induction rule: list_all2_induct) simp_all
  then have "map lower (map (\<lambda>arg. strip (py_str E arg)) args) = map lower (map (\<lambda>arg. strip (py_str E arg)) args')"
    by (simp add: comp_def)
  then show ?thesis by (simp add: uid_def lower_join)
qed

theorem uid_deterministic_witness:
  "list_all2 (\<lambda>a b. lower (strip (py_str sample_env a)) = lower (strip (py_str sample_env b)))
     [ModelType_PROCESS, PStr '' Coal'', PStr ''US ''] [PStr ''modeltype.process'', PStr ''COAL  '', PStr ''us'']
   \<and> uid sample_env [ModelType_PROCESS, PStr '' Coal'', PStr ''US '']
     = uid sample_env [PStr ''modeltype.process'', PStr ''COAL  '', PStr ''us'']"
proof -
  have h: "list_all2 (\<lambda>a b. lower (strip (py_str sample_env a)) = lower (strip (py_str sample_env b)))
     [ModelType_PROCESS, PStr '' Coal'', PStr ''US ''] [PStr ''modeltype.process'', PStr ''COAL  '', PStr ''us'']"
    by (simp add: ModelType_PROCESS_def py_str_def lower_def lower_char_def strip_def lstrip_def str_defs)
  from h uid_deterministic[OF h] show ?thesis by blast
qed

section \<open>The merge of two registries\<close>

lemma fst_in: "(k, b) \<in> set d \<Longrightarrow> k \<in> fst ` set d"
  by force

lemma od_set_keys:
  "map fst (od_set d k v) = (if k \<in> set (map fst d) then map fst d else map fst d @ [k])"
  by (induction d) (auto dest: fst_in)

lemma od_set_keys_set: "fst ` set (od_set d k v) = insert k (fst ` set d)"
proof -
  have "set (map fst (od_set d k v)) = insert k (set (map fst d))"
    by (simp add: od_set_keys insert_absorb)
  then show ?thesis by simp
qed


lemma od_set_absent: "k \<notin> fst ` set d \<Longrightarrow> od_set d k v = d @ [(k, v)]"
  by (induction d) auto






lemma make_entity_loop_zip:
  "distinct us \<Longrightarrow> set us \<inter> fst ` set r = {} \<Longrightarrow> make_entity_loop us os r = r @ zip us os"
proof (induction us os r rule: make_entity_loop.induct)
  case (3 u us obj os r_dict)
  then have "od_set r_dict u obj = r_dict @ [(u, obj)]" by (auto intro: od_set_absent)
  moreover from 3 have "set us \<inter> fst ` set (od_set r_dict u obj) = {}" by (auto simp: od_set_keys_set)
  ultimately show ?case using 3 by simp
qed simp_all

lemma make_entity_dict_zip:
  "distinct (ids (e k)) \<Longrightarrow> make_entity_dict e k = zip (ids (e k)) (objs (e k))"
  by (simp add: make_entity_dict_def make_entity_loop_zip)






section \<open>The exchange list\<close>

lemma exchange_None:
  "exchange E e s = Inr (None, s1, e') \<Longrightarrow> e = PNone"
  by (auto simp: exchange.simps split: if_splits sum.splits prod.splits)

lemma exchange_Some:
  assumes "exchange E e s = Inr (Some x, s1, e')"
  shows "e \<noteq> PNone"
    and "ex_is_quantitative_reference x = val e [''quantitativeReference''] (Some (PBool False))"
    and "ex_amount x = val e [''amount''] (Some (PFloat (Finite 0)))"
    and "is_dict (val e [''flow''] None) \<or> ex_flow x = None"
    and "ex_internal_id x = None"
  using assms
  by (auto simp: exchange.simps exchange_base_def flow_def split: if_splits sum.splits prod.splits)

lemma exchange_loop_inv:
  "exchange_loop E es s r l q v = Inr (r', s', q', v') \<Longrightarrow>
   \<exists>new. r' = r @ new
     \<and> list_all2 (\<lambda>e x. e \<noteq> PNone
        \<and> ex_is_quantitative_reference x = val e [''quantitativeReference''] (Some (PBool False))
        \<and> ex_amount x = val e [''amount''] (Some (PFloat (Finite 0)))
        \<and> (is_dict (val e [''flow''] None) \<or> ex_flow x = None)) (filter (\<lambda>e. e \<noteq> PNone) es) new
     \<and> map ex_internal_id new = map (\<lambda>i. Some (l + Suc i)) [0..<length new]
     \<and> q' = (case filter (\<lambda>x. truthy (ex_is_quantitative_reference x)) new of
                [] \<Rightarrow> q | f # fs \<Rightarrow> Some (last (f # fs)))"
proof (induction es arbitrary: s r l q v)
  case Nil
  then show ?case by simp
next
  case (Cons e es)
  show ?case
  proof (cases "exchange E e s")
    case (Inl err)
    with Cons.prems show ?thesis by simp
  next
    case (Inr t)
    obtain ox s1 e1 where t: "t = (ox, s1, e1)" by (cases t)
    show ?thesis
    proof (cases ox)
      case None
      with Inr t have eN: "e = PNone" by (auto dest: exchange_None)
      from Cons.prems Inr t None
      have "exchange_loop E es s1 r l q (v @ [e1]) = Inr (r', s', q', v')" by simp
      from Cons.IH[OF this] eN show ?thesis by simp
    next
      case (Some x)
      let ?x = "x\<lparr>ex_internal_id := Some (l + 1)\<rparr>"
      let ?q = "if truthy (ex_is_quantitative_reference x) then Some ?x else q"
      from Inr t Some have ex: "exchange E e s = Inr (Some x, s1, e1)" by simp
      have bf: "(\<lambda>e x. e \<noteq> PNone
        \<and> ex_is_quantitative_reference x = val e [''quantitativeReference''] (Some (PBool False))
        \<and> ex_amount x = val e [''amount''] (Some (PFloat (Finite 0)))
        \<and> (is_dict (val e [''flow''] None) \<or> ex_flow x = None)) e ?x" and ne: "e \<noteq> PNone"
        using exchange_Some[OF ex] by auto
      from Cons.prems Inr t Some
      have "exchange_loop E es s1 (r @ [?x]) (l + 1) ?q (v @ [e1]) = Inr (r', s', q', v')"
        by simp
      from Cons.IH[OF this] obtain new where
        r': "r' = (r @ [?x]) @ new"
        and la: "list_all2 (\<lambda>e x. e \<noteq> PNone
        \<and> ex_is_quantitative_reference x = val e [''quantitativeReference''] (Some (PBool False))
        \<and> ex_amount x = val e [''amount''] (Some (PFloat (Finite 0)))
        \<and> (is_dict (val e [''flow''] None) \<or> ex_flow x = None)) (filter (\<lambda>e. e \<noteq> PNone) es) new"
        and ids: "map ex_internal_id new = map (\<lambda>i. Some (l + 1 + Suc i)) [0..<length new]"
        and q': "q' = (case filter (\<lambda>x. truthy (ex_is_quantitative_reference x)) new of
                [] \<Rightarrow> ?q | f # fs \<Rightarrow> Some (last (f # fs)))"
        by blast
      have i2: "map ex_internal_id (?x # new) = map (\<lambda>i. Some (l + Suc i)) [0..<length (?x # new)]"
      proof -
        have "[0..<length (?x # new)] = 0 # map Suc [0..<length new]"
          by (simp add: upt_conv_Cons map_Suc_upt del: upt_Suc)
        then show ?thesis using ids by (simp add: comp_def)
      qed
      have q2: "q' = (case filter (\<lambda>x. truthy (ex_is_quantitative_reference x)) (?x # new) of
                [] \<Rightarrow> q | f # fs \<Rightarrow> Some (last (f # fs)))"
        using q' by (auto split: list.splits)
      show ?thesis
        apply (rule exI[of _ "?x # new"])
        using r' la bf ne i2 q2 by simp
    qed
  qed
qed


lemma exchange_list_inv:
  assumes "exchange_list E dict_d dict_s = Inr (r_list, s', q_ref, es')"
  shows "list_all2 (\<lambda>e x. e \<noteq> PNone
        \<and> ex_is_quantitative_reference x = val e [''quantitativeReference''] (Some (PBool False))
        \<and> ex_amount x = val e [''amount''] (Some (PFloat (Finite 0)))
        \<and> (is_dict (val e [''flow''] None) \<or> ex_flow x = None))
           (filter (\<lambda>e. e \<noteq> PNone) (iter_list (val dict_d [''exchanges''] (Some (PList []))))) r_list"
    and "map ex_internal_id r_list = map (\<lambda>i. Some (Suc i)) [0..<length r_list]"
    and "q_ref = (case filter (\<lambda>x. truthy (ex_is_quantitative_reference x)) r_list of
                    [] \<Rightarrow> None | f # fs \<Rightarrow> Some (last (f # fs)))"
proof -
  from assms obtain es where it: "py_iter (val dict_d [''exchanges''] (Some (PList []))) = Inr es"
    and lp: "exchange_loop E es dict_s [] 0 None [] = Inr (r_list, s', q_ref, es')"
    by (auto simp: exchange_list.simps split: sum.splits)
  from it have es: "iter_list (val dict_d [''exchanges''] (Some (PList []))) = es"
    by (simp add: iter_list_def)
  from exchange_loop_inv[OF lp] es
  show "list_all2 (\<lambda>e x. e \<noteq> PNone
        \<and> ex_is_quantitative_reference x = val e [''quantitativeReference''] (Some (PBool False))
        \<and> ex_amount x = val e [''amount''] (Some (PFloat (Finite 0)))
        \<and> (is_dict (val e [''flow''] None) \<or> ex_flow x = None))
           (filter (\<lambda>e. e \<noteq> PNone) (iter_list (val dict_d [''exchanges''] (Some (PList []))))) r_list"
    and "map ex_internal_id r_list = map (\<lambda>i. Some (Suc i)) [0..<length r_list]"
    and "q_ref = (case filter (\<lambda>x. truthy (ex_is_quantitative_reference x)) r_list of
                    [] \<Rightarrow> None | f # fs \<Rightarrow> Some (last (f # fs)))"
    by auto
qed



text \<open>
  The same holds for what \<^verbatim>\<open>_process\<close> reports, for a new process and for one found
  in the registry (\<^verbatim>\<open>_find_ref_exchange\<close>): the last flagged exchange of the process.
\<close>

lemma find_ref_loop_last:
  "find_ref_loop es q =
     (case filter (\<lambda>x. truthy (ex_is_quantitative_reference x)) es of
        [] \<Rightarrow> q | f # fs \<Rightarrow> Some (last (f # fs)))"
  by (induction es arbitrary: q) (auto split: list.splits)

lemma process_reports_last_reference:
  assumes "process E d dict_s = Inr (Some p, s1, e_ref, d')"
  shows "\<exists>pr. p = EProcess pr
           \<and> e_ref = (case filter (\<lambda>x. truthy (ex_is_quantitative_reference x)) (p_exchanges pr) of
                        [] \<Rightarrow> None | f # fs \<Rightarrow> Some (last (f # fs)))"
proof (cases "process_uid E d \<in> set (ids (dict_s KProcess))")
  case True
  with assms have "find_ref_exchange p = Inr e_ref"
    by (auto simp: process.simps split: if_splits sum.splits)
  then show ?thesis
    by (cases p) (simp_all add: find_ref_exchange_def find_ref_loop_last)
next
  case False
  with assms obtain pr s2 r_list s3 es' where
    "exchange_list E d s2 = Inr (r_list, s3, e_ref, es')"
    and "p = EProcess (pr\<lparr>p_exchanges := r_list\<rparr>)"
    by (auto simp: process.simps split: if_splits sum.splits prod.splits)
  with exchange_list_inv(3) show ?thesis by auto
qed

text \<open>
  Claim C7, as stated, fails: an entry with no flow is not skipped. \<^verbatim>\<open>_flow\<close>
  answers None for the missing flow record, and \<^verbatim>\<open>_exchange\<close> still returns the
  exchange, with its flow left at None; the list holds it with sequence number 1.
\<close>

theorem exchange_without_flow_counterexample:
  "val (PDict [(''amount'', PFloat (Finite (5 / 2))), (''unit'', PStr ''kg''), (''input'', PBool True)])
       [''flow''] None = PNone
   \<and> exchange_list sample_env
       (PDict [(''exchanges'', PList [PDict [(''amount'', PFloat (Finite (5 / 2))),
                                            (''unit'', PStr ''kg''), (''input'', PBool True)]])])
       root_entity_dict
     = Inr ([\<lparr>ex_is_quantitative_reference = PBool False, ex_is_input = PBool True,
              ex_is_avoided_product = PBool False, ex_amount = PFloat (Finite (5 / 2)),
              ex_dq_entry = PNone, ex_description = PNone,
              ex_unit = Some \<lparr>ref_type = ''Unit'', ref_id = PStr ''20aadc24-a391-41cf-b340-3e4529f44bde'',
                                ref_name = PStr ''kg'', ref_category = PNone\<rparr>,
              ex_flow_property = None, ex_flow = None, ex_uncertainty = None,
              ex_default_provider = None, ex_internal_id = Some 1\<rparr>],
            root_entity_dict, None,
            [PDict [(''amount'', PFloat (Finite (5 / 2))), (''unit'', PStr ''kg''), (''input'', PBool True)]])"
  by (simp add: build_defs)

text \<open>
  Claim C7, amended. Whenever \<^verbatim>\<open>_exchange_list\<close> returns, the exchanges it built are,
  in order, those of the entries that are not None: only an entry that is None is
  skipped. Each exchange carries the amount of its entry as given (0.0 when there is
  none), and an entry whose flow is not a dictionary gives an exchange whose flow is None.
\<close>

theorem exchange_list_skips_only_none:
  assumes "exchange_list E dict_d dict_s = Inr (r_list, s', q_ref, es')"
  shows "list_all2 (\<lambda>e x. ex_amount x = val e [''amount''] (Some (PFloat (Finite 0)))
                      \<and> (is_dict (val e [''flow''] None) \<or> ex_flow x = None))
           (filter (\<lambda>e. e \<noteq> PNone) (iter_list (val dict_d [''exchanges''] (Some (PList []))))) r_list"
  using exchange_list_inv(1)[OF assms] by (rule list_all2_mono) simp

theorem exchange_list_skips_only_none_witness:
  "\<exists>r_list s' q_ref es'.
     exchange_list sample_env two_references root_entity_dict = Inr (r_list, s', q_ref, es')
     \<and> map ex_amount r_list = [PInt 1, PInt 2] \<and> map ex_flow r_list = [None, None]"
proof -
  have "\<exists>r_list s' q_ref es'.
     exchange_list sample_env two_references root_entity_dict = Inr (r_list, s', q_ref, es')
     \<and> length r_list = 2"
    by (simp add: two_references_def build_defs)
  then obtain r_list s' q_ref es' where
    h: "exchange_list sample_env two_references root_entity_dict = Inr (r_list, s', q_ref, es')"
    and len: "length r_list = 2" by blast
  from len obtain a b where ab: "r_list = [a, b]"
    by (cases r_list; cases "tl r_list") auto
  have it: "iter_list (val two_references [''exchanges''] (Some (PList []))) =
      [PDict [(''quantitativeReference'', PBool True), (''amount'', PInt 1)], PNone,
       PDict [(''quantitativeReference'', PBool True), (''amount'', PInt 2)]]"
    by (simp add: two_references_def val_def iter_list_def)
  from exchange_list_skips_only_none[OF h, unfolded it]
  have c: "map ex_amount r_list = [PInt 1, PInt 2] \<and> map ex_flow r_list = [None, None]"
    by (auto simp: val_def ab)
  show ?thesis
    by (rule exI[of _ r_list], rule exI[of _ s'], rule exI[of _ q_ref], rule exI[of _ es'])
       (simp only: h c)
qed

section \<open>Documentation and uncertainty\<close>


text \<open>
  Claim C9. A geometric mean given as a string that is no number is not answered with
  None: \<^verbatim>\<open>float\<close> is applied to it unguarded and raises ValueError.
\<close>

theorem uncertainty_invalid_string_raises:
  "uncertainty (PDict [(''distributionType'', PStr ''Logarithmic Normal Distribution''),
                       (''geomMean'', PStr ''abc''), (''geomSd'', PStr ''1.1'')])
   = Inl ValueError"
  by (simp add: uncertainty_def val_def str_to_float_def str_defs float_defs)

text \<open>The scenario of the specification, and a distribution that is not log-normal.\<close>

lemma uncertainty_scenario:
  "uncertainty (PDict [(''distributionType'', PStr ''Logarithmic Normal Distribution''),
                       (''geomMean'', PStr ''3.2''), (''geomSd'', PStr ''1.1'')])
   = Inr (Some \<lparr>u_distribution_type = ''LOG_NORMAL_DISTRIBUTION'',
                 u_geom_mean = PFloat (Finite (16 / 5)), u_geom_sd = PFloat (Finite (11 / 10))\<rparr>)"
  by (simp add: uncertainty_def val_def str_to_float_def str_defs float_defs isnum_def)

lemma uncertainty_normal:
  "uncertainty (PDict [(''distributionType'', PStr ''Normal''),
                       (''geomMean'', PStr ''3.2''), (''geomSd'', PStr ''1.1'')]) = Inr None"
  by (simp add: uncertainty_def val_def)

section \<open>What resolving a flow does to the caller's flow record\<close>






section \<open>Supplied and derived identifiers\<close>











section \<open>The registry that \<^verbatim>\<open>write\<close> builds\<close>


text \<open>
  The merge before saving goes through a dictionary, so the archive written for this
  batch holds the process once.
\<close>

lemma write_saves_one:
  "(case files (snd (write_olca sample_env same_process_twice ''out.zip'' True fs0)) ''out.zip'' of
      None \<Rightarrow> False
    | Some a \<Rightarrow> ids_of a KProcess = [PStr ''uuid3(modeltype.process//plant/plant)''])"
  by (simp add: same_process_twice_def write_olca_def init_root_entities_def fs0_def add_unit_groups_def
      save_to_json_def read_jsonld_def update_data_def update_key_def make_entity_dict_def root_keys_def
      ids_of_def build_defs str_defs)

section \<open>Saving over an existing archive\<close>





end
